theory Spec2Isabelle
  imports Main
begin

section \<open>Python values of the HTTP wrapper (\<^verbatim>\<open>mcp-neo4j/src/http_wrapper.py\<close>)\<close>

text \<open>
  A Python \<^verbatim>\<open>str\<close> is a sequence of Unicode code points, so it is modelled as a list
  of naturals. String literals of the source are written \<open>ustr ''...''\<close>.
\<close>

type_synonym pystr = "nat list"

definition ustr :: "string \<Rightarrow> pystr" where
  "ustr s = map of_char s"

text \<open>
  A Python \<^verbatim>\<open>float\<close>: a finite double is \<open>mantissa * 2 ^ exponent\<close>; the handlers only
  test a float for being zero.
\<close>

datatype pyfloat = Finite int int | Infinity bool | NaN

text \<open>
  The values of type \<^verbatim>\<open>Any\<close> that a JSON body or a database row can hold. A \<^verbatim>\<open>dict\<close> with
  string keys is an association list, looked up with \<open>map_of\<close>.
\<close>

datatype pyval =
    PNone
  | PBool bool
  | PInt int
  | PFloat pyfloat
  | PStr pystr
  | PList "pyval list"
  | PDict "(pystr \<times> pyval) list"

type_synonym pydict = "(pystr \<times> pyval) list"

text \<open>Truth value testing, as \<^verbatim>\<open>not query\<close> and \<^verbatim>\<open>if result\<close> use it.\<close>

fun truthy :: "pyval \<Rightarrow> bool" where
  "truthy PNone = False"
| "truthy (PBool b) = b"
| "truthy (PInt i) = (i \<noteq> 0)"
| "truthy (PFloat (Finite m e)) = (m \<noteq> 0)"
| "truthy (PFloat (Infinity neg)) = True"
| "truthy (PFloat NaN) = True"
| "truthy (PStr s) = (s \<noteq> [])"
| "truthy (PList xs) = (xs \<noteq> [])"
| "truthy (PDict kvs) = (kvs \<noteq> [])"

text \<open>\<^verbatim>\<open>type(v).__name__\<close>, which the message of an \<^verbatim>\<open>AttributeError\<close> quotes.\<close>

fun type_name :: "pyval \<Rightarrow> pystr" where
  "type_name PNone = ustr ''NoneType''"
| "type_name (PBool b) = ustr ''bool''"
| "type_name (PInt i) = ustr ''int''"
| "type_name (PFloat f) = ustr ''float''"
| "type_name (PStr s) = ustr ''str''"
| "type_name (PList xs) = ustr ''list''"
| "type_name (PDict kvs) = ustr ''dict''"

text \<open>\<^verbatim>\<open>d.get(key, default)\<close> on a dict.\<close>

definition dict_get :: "pydict \<Rightarrow> pystr \<Rightarrow> pyval \<Rightarrow> pyval" where
  "dict_get d k dflt = (case map_of d k of None \<Rightarrow> dflt | Some v \<Rightarrow> v)"

subsection \<open>Exceptions\<close>

text \<open>
  Every exception the handlers can meet is an instance of \<^verbatim>\<open>Exception\<close>; the handlers
  read nothing of it but \<^verbatim>\<open>str(e)\<close>, which each constructor carries. \<open>DriverException\<close>
  stands for whatever the database driver raises.
\<close>

datatype pyexn = AttributeError pystr | DriverException pystr

fun exn_str :: "pyexn \<Rightarrow> pystr" where
  "exn_str (AttributeError msg) = msg"
| "exn_str (DriverException msg) = msg"

text \<open>The message of the \<^verbatim>\<open>AttributeError\<close> of \<^verbatim>\<open>obj.attr\<close> on an object without \<^verbatim>\<open>attr\<close>.\<close>

definition apostrophe :: pystr where
  "apostrophe = [39]"

definition no_attribute :: "pystr \<Rightarrow> pystr \<Rightarrow> pyexn" where
  "no_attribute tn attr =
     AttributeError (apostrophe @ tn @ apostrophe @ ustr '' object has no attribute '' @
                     apostrophe @ attr @ apostrophe)"

subsection \<open>\<^verbatim>\<open>str.upper\<close> and \<^verbatim>\<open>in\<close>\<close>

text \<open>
  \<^verbatim>\<open>str.upper()\<close> maps every code point on its own to its full upper-case mapping, which
  may be several code points. On ASCII the mapping is fixed here; for the other code
  points it is the table of the Python runtime, a parameter \<open>tbl\<close> of everything below.
\<close>

type_synonym upper_table = "nat \<Rightarrow> pystr"

definition ascii_upper :: "nat \<Rightarrow> nat" where
  "ascii_upper c = (if 97 \<le> c \<and> c \<le> 122 then c - 32 else c)"

definition to_upper_full :: "upper_table \<Rightarrow> nat \<Rightarrow> pystr" where
  "to_upper_full tbl c = (if c < 128 then [ascii_upper c] else tbl c)"

definition str_upper :: "upper_table \<Rightarrow> pystr \<Rightarrow> pystr" where
  "str_upper tbl s = concat (map (to_upper_full tbl) s)"

text \<open>\<^verbatim>\<open>query.upper()\<close> on a value of any type: only a \<^verbatim>\<open>str\<close> has the method.\<close>

definition py_upper :: "upper_table \<Rightarrow> pyval \<Rightarrow> pyexn + pystr" where
  "py_upper tbl v =
     (case v of
        PStr s \<Rightarrow> Inr (str_upper tbl s)
      | _ \<Rightarrow> Inl (no_attribute (type_name v) (ustr ''upper'')))"

text \<open>\<^verbatim>\<open>s.startswith(k)\<close> and the substring test \<^verbatim>\<open>k in s\<close>, as a search from every position.\<close>

fun starts_with :: "pystr \<Rightarrow> pystr \<Rightarrow> bool" where
  "starts_with [] s = True"
| "starts_with (k # ks) [] = False"
| "starts_with (k # ks) (c # cs) = (k = c \<and> starts_with ks cs)"

fun py_in :: "pystr \<Rightarrow> pystr \<Rightarrow> bool" where
  "py_in k [] = (k = [])"
| "py_in k (c # cs) = (starts_with k (c # cs) \<or> py_in k cs)"

section \<open>The query classifier\<close>

text \<open>
  Both query endpoints hold the same list and the same test
  \<^verbatim>\<open>any(keyword in query.upper() for keyword in write_keywords)\<close>. The generator calls
  \<^verbatim>\<open>query.upper()\<close> once per keyword it reaches and stops at the first hit; an exception
  of \<^verbatim>\<open>upper\<close> leaves the test.
\<close>

definition write_keywords :: "pystr list" where
  "write_keywords =
     [ustr ''MERGE'', ustr ''CREATE'', ustr ''SET'', ustr ''DELETE'', ustr ''REMOVE'', ustr ''ADD'']"

fun any_keyword_in_upper :: "upper_table \<Rightarrow> pyval \<Rightarrow> pystr list \<Rightarrow> pyexn + bool" where
  "any_keyword_in_upper tbl query [] = Inr False"
| "any_keyword_in_upper tbl query (keyword # rest) =
     (case py_upper tbl query of
        Inl e \<Rightarrow> Inl e
      | Inr u \<Rightarrow> if py_in keyword u then Inr True else any_keyword_in_upper tbl query rest)"

section \<open>Requests, responses and the database driver\<close>

text \<open>
  \<^verbatim>\<open>ToolRequest.arguments\<close> is \<^verbatim>\<open>Optional[Dict[str, Any]]\<close>: a request body may give a
  mapping, leave the field out (the mapping is then empty) or give \<^verbatim>\<open>null\<close>.
  \<^verbatim>\<open>ToolResponse\<close> has \<^verbatim>\<open>data: Optional[Any]\<close>, where \<open>PNone\<close> is the absent value, and
  \<^verbatim>\<open>error: Optional[str]\<close>.
\<close>

record toolrequest =
  arguments :: "pydict option"

record toolresponse =
  success :: bool
  data :: pyval
  error :: "pystr option"

text \<open>The process environment, read by \<^verbatim>\<open>os.getenv(name, default)\<close>.\<close>

type_synonym environ = "pystr \<rightharpoonup> pystr"

definition getenv :: "environ \<Rightarrow> pystr \<Rightarrow> pystr \<Rightarrow> pystr" where
  "getenv env name dflt = (case env name of None \<Rightarrow> dflt | Some v \<Rightarrow> v)"

text \<open>
  One call of \<^verbatim>\<open>neo4j_driver.execute_query\<close> with the arguments the handlers pass:
  the query, \<^verbatim>\<open>parameters_\<close> (\<open>PNone\<close> when not given), \<^verbatim>\<open>routing_control\<close>,
  \<^verbatim>\<open>database_\<close> and whether \<^verbatim>\<open>result_transformer_=lambda r: r.data()\<close> is given.
\<close>

datatype routing_control = READ | WRITE

datatype result_transformer = EagerDefault | RecordData

record db_call =
  cq_query :: pyval
  cq_parameters :: pyval
  cq_routing :: routing_control
  cq_database :: pyval
  cq_transformer :: result_transformer

text \<open>
  What a call that does not raise gives back: the rows (each the dict that
  \<^verbatim>\<open>r.data()\<close> makes of a record), the summary's counters the write handler reads, and
  the keys. The driver is outside the repository: it is a parameter, a function from the
  call to an exception or a result. The global \<^verbatim>\<open>neo4j_driver\<close> is \<^verbatim>\<open>None\<close> until startup
  has run.
\<close>

record summary_counters =
  nodes_created :: int
  nodes_deleted :: int
  relationships_created :: int
  relationships_deleted :: int
  properties_set :: int
  labels_added :: int
  labels_removed :: int

record eager_result =
  er_records :: "pydict list"
  er_summary :: summary_counters
  er_keys :: "pystr list"

type_synonym driver = "db_call \<Rightarrow> pyexn + eager_result"

text \<open>
  A handler's effect on the database is the list of calls it made; every function below
  returns it beside its value.
\<close>

definition execute_query :: "driver option \<Rightarrow> db_call \<Rightarrow> (pyexn + eager_result) \<times> db_call list" where
  "execute_query neo4j_driver c =
     (case neo4j_driver of
        None \<Rightarrow> (Inl (no_attribute (ustr ''NoneType'') (ustr ''execute_query'')), [])
      | Some d \<Rightarrow> (d c, [c]))"

definition failure :: "pystr \<Rightarrow> toolresponse" where
  "failure msg = \<lparr>success = False, data = PNone, error = Some msg\<rparr>"

section \<open>The three tool endpoints\<close>

subsection \<open>\<^verbatim>\<open>get_neo4j_schema\<close>\<close>

definition get_neo4j_schema ::
  "environ \<Rightarrow> driver option \<Rightarrow> toolrequest \<Rightarrow> toolresponse \<times> db_call list" where
  "get_neo4j_schema env neo4j_driver request =
     (case execute_query neo4j_driver
             \<lparr>cq_query = PStr (ustr ''CALL apoc.meta.schema();''),
              cq_parameters = PNone,
              cq_routing = READ,
              cq_database = PStr (getenv env (ustr ''NEO4J_DATABASE'') (ustr ''neo4j'')),
              cq_transformer = RecordData\<rparr> of
        (Inr res, calls) \<Rightarrow>
          (let result = er_records res in
           if truthy (PList (map PDict result)) \<and> length result > 0
           then (\<lparr>success = True,
                  data = dict_get (result ! 0) (ustr ''value'') (PDict []),
                  error = None\<rparr>, calls)
           else (\<lparr>success = True, data = PDict [], error = None\<rparr>, calls))
      | (Inl e, calls) \<Rightarrow>
          (let error_msg =
                (if py_in (ustr ''Neo.ClientError.Procedure.ProcedureNotFound'') (exn_str e)
                 then ustr ''Neo4j instance does not have the APOC plugin installed. Please install and enable the APOC plugin.''
                 else ustr ''Neo4j Error: '' @ exn_str e)
           in (failure error_msg, calls)))"

subsection \<open>\<^verbatim>\<open>read_neo4j_cypher\<close>\<close>

text \<open>The body of the \<^verbatim>\<open>try\<close> block: an exception that leaves it, or the response it returns.\<close>

definition read_try ::
  "upper_table \<Rightarrow> environ \<Rightarrow> driver option \<Rightarrow> toolrequest \<Rightarrow> (pyexn + toolresponse) \<times> db_call list" where
  "read_try tbl env neo4j_driver request =
     (case arguments request of
        None \<Rightarrow> (Inl (no_attribute (ustr ''NoneType'') (ustr ''get'')), [])
      | Some args \<Rightarrow>
          (let query = dict_get args (ustr ''query'') PNone;
               params = dict_get args (ustr ''params'') (PDict []);
               database = dict_get args (ustr ''database'')
                            (PStr (getenv env (ustr ''NEO4J_DATABASE'') (ustr ''neo4j'')))
           in if \<not> truthy query
              then (Inr (failure (ustr ''Query parameter is required'')), [])
              else
                (case any_keyword_in_upper tbl query write_keywords of
                   Inl e \<Rightarrow> (Inl e, [])
                 | Inr hit \<Rightarrow>
                     if hit
                     then (Inr (failure (ustr ''Only MATCH queries are allowed for read-query'')), [])
                     else
                       (case execute_query neo4j_driver
                               \<lparr>cq_query = query,
                                cq_parameters = params,
                                cq_routing = READ,
                                cq_database = database,
                                cq_transformer = RecordData\<rparr> of
                          (Inl e, calls) \<Rightarrow> (Inl e, calls)
                        | (Inr res, calls) \<Rightarrow>
                            (Inr \<lparr>success = True,
                                  data = PList (map PDict (er_records res)),
                                  error = None\<rparr>, calls)))))"

text \<open>The handler: the \<^verbatim>\<open>try\<close> block under \<^verbatim>\<open>except Exception as e\<close>.\<close>

definition read_neo4j_cypher ::
  "upper_table \<Rightarrow> environ \<Rightarrow> driver option \<Rightarrow> toolrequest \<Rightarrow> toolresponse \<times> db_call list" where
  "read_neo4j_cypher tbl env neo4j_driver request =
     (case read_try tbl env neo4j_driver request of
        (Inr response, calls) \<Rightarrow> (response, calls)
      | (Inl e, calls) \<Rightarrow> (failure (ustr ''Neo4j Error: '' @ exn_str e), calls))"

subsection \<open>\<^verbatim>\<open>write_neo4j_cypher\<close>\<close>

definition write_try ::
  "upper_table \<Rightarrow> environ \<Rightarrow> driver option \<Rightarrow> toolrequest \<Rightarrow> (pyexn + toolresponse) \<times> db_call list" where
  "write_try tbl env neo4j_driver request =
     (case arguments request of
        None \<Rightarrow> (Inl (no_attribute (ustr ''NoneType'') (ustr ''get'')), [])
      | Some args \<Rightarrow>
          (let query = dict_get args (ustr ''query'') PNone;
               params = dict_get args (ustr ''params'') (PDict []);
               database = dict_get args (ustr ''database'')
                            (PStr (getenv env (ustr ''NEO4J_DATABASE'') (ustr ''neo4j'')))
           in if \<not> truthy query
              then (Inr (failure (ustr ''Query parameter is required'')), [])
              else
                (case any_keyword_in_upper tbl query write_keywords of
                   Inl e \<Rightarrow> (Inl e, [])
                 | Inr hit \<Rightarrow>
                     if \<not> hit
                     then (Inr (failure (ustr ''Only write queries are allowed for write-query'')), [])
                     else
                       (case execute_query neo4j_driver
                               \<lparr>cq_query = query,
                                cq_parameters = params,
                                cq_routing = WRITE,
                                cq_database = database,
                                cq_transformer = EagerDefault\<rparr> of
                          (Inl e, calls) \<Rightarrow> (Inl e, calls)
                        | (Inr res, calls) \<Rightarrow>
                            (let summary = er_summary res;
                                 counters = PDict
                                   [(ustr ''nodesCreated'', PInt (nodes_created summary)),
                                    (ustr ''nodesDeleted'', PInt (nodes_deleted summary)),
                                    (ustr ''relationshipsCreated'', PInt (relationships_created summary)),
                                    (ustr ''relationshipsDeleted'', PInt (relationships_deleted summary)),
                                    (ustr ''propertiesSet'', PInt (properties_set summary)),
                                    (ustr ''labelsAdded'', PInt (labels_added summary)),
                                    (ustr ''labelsRemoved'', PInt (labels_removed summary))]
                             in (Inr \<lparr>success = True, data = counters, error = None\<rparr>, calls))))))"

definition write_neo4j_cypher ::
  "upper_table \<Rightarrow> environ \<Rightarrow> driver option \<Rightarrow> toolrequest \<Rightarrow> toolresponse \<times> db_call list" where
  "write_neo4j_cypher tbl env neo4j_driver request =
     (case write_try tbl env neo4j_driver request of
        (Inr response, calls) \<Rightarrow> (response, calls)
      | (Inl e, calls) \<Rightarrow> (failure (ustr ''Neo4j Error: '' @ exn_str e), calls))"

section \<open>Example inputs\<close>

text \<open>
  Inputs at which the theorems below are instantiated: an upper-case table that leaves
  every code point outside ASCII as it is, a driver that answers every call with one
  row and the counters of \<^verbatim>\<open>CREATE (n:Test) RETURN n\<close>, a driver that finds no rows, and a
  driver that raises an exception with a given message.
\<close>

definition plain_upper :: upper_table where
  "plain_upper c = [c]"

definition sample_result :: eager_result where
  "sample_result =
     \<lparr>er_records = [[(ustr ''value'', PDict [(ustr ''Test'', PStr (ustr ''node''))])]],
      er_summary = \<lparr>nodes_created = 1, nodes_deleted = 0,
                    relationships_created = 0, relationships_deleted = 0,
                    properties_set = 0, labels_added = 1, labels_removed = 0\<rparr>,
      er_keys = [ustr ''value'']\<rparr>"

definition answering_driver :: driver where
  "answering_driver c = Inr sample_result"

definition empty_driver :: driver where
  "empty_driver c = Inr (sample_result\<lparr>er_records := []\<rparr>)"

definition raising_driver :: "pystr \<Rightarrow> driver" where
  "raising_driver msg c = Inl (DriverException msg)"

definition query_request :: "pyval \<Rightarrow> toolrequest" where
  "query_request q = \<lparr>arguments = Some [(ustr ''query'', q)]\<rparr>"

section \<open>Properties of the classifier\<close>

lemma starts_with_iff: "starts_with k s \<longleftrightarrow> (\<exists>suf. s = k @ suf)"
  by (induction k s rule: starts_with.induct) auto

lemma py_in_iff: "py_in k s \<longleftrightarrow> (\<exists>pre suf. s = pre @ k @ suf)"
proof (induction s)
  case Nil
  then show ?case by simp
next
  case (Cons c cs)
  have "(\<exists>pre suf. c # cs = pre @ k @ suf) \<longleftrightarrow>
        (\<exists>suf. c # cs = k @ suf) \<or> (\<exists>pre suf. cs = pre @ k @ suf)"
  proof
    assume "\<exists>pre suf. c # cs = pre @ k @ suf"
    then obtain pre suf where eq: "c # cs = pre @ k @ suf" by blast
    show "(\<exists>suf. c # cs = k @ suf) \<or> (\<exists>pre suf. cs = pre @ k @ suf)"
    proof (cases pre)
      case Nil
      with eq show ?thesis by auto
    next
      case (Cons p ps)
      with eq have "cs = ps @ k @ suf" by simp
      then show ?thesis by blast
    qed
  next
    assume "(\<exists>suf. c # cs = k @ suf) \<or> (\<exists>pre suf. cs = pre @ k @ suf)"
    then show "\<exists>pre suf. c # cs = pre @ k @ suf"
    proof
      assume "\<exists>suf. c # cs = k @ suf"
      then obtain suf where "c # cs = [] @ k @ suf" by auto
      then show ?thesis by blast
    next
      assume "\<exists>pre suf. cs = pre @ k @ suf"
      then obtain pre suf where "c # cs = (c # pre) @ k @ suf" by auto
      then show ?thesis by blast
    qed
  qed
  with Cons show ?case by (simp add: starts_with_iff)
qed

lemma any_keyword_in_upper_str:
  "any_keyword_in_upper tbl (PStr q) ks = Inr (\<exists>k \<in> set ks. py_in k (str_upper tbl q))"
  by (induction ks) (auto simp: py_upper_def)

text \<open>
  Claim C1. For every query string the classifier answers \<open>True\<close> (a write query) exactly
  when one of the six keywords MERGE, CREATE, SET, DELETE, REMOVE, ADD occurs as a
  substring of the upper-cased query text, at any position; otherwise it answers
  \<open>False\<close> (a read query). It never raises on a string.
\<close>

theorem classifier_iff_keyword_substring:
  "any_keyword_in_upper tbl (PStr q) write_keywords =
     Inr (\<exists>k \<in> {ustr ''MERGE'', ustr ''CREATE'', ustr ''SET'',
                 ustr ''DELETE'', ustr ''REMOVE'', ustr ''ADD''}.
            \<exists>pre suf. str_upper tbl q = pre @ k @ suf)"
  unfolding any_keyword_in_upper_str by (simp add: py_in_iff write_keywords_def)

text \<open>
  The theorem at two queries: a lower-case \<^verbatim>\<open>MATCH\<close> on a property named \<^verbatim>\<open>created\<close>
  holds a keyword, the plain \<^verbatim>\<open>MATCH (n) RETURN n LIMIT 1\<close> holds none.
\<close>

theorem classifier_iff_keyword_substring_witness:
  "(\<exists>k \<in> {ustr ''MERGE'', ustr ''CREATE'', ustr ''SET'',
            ustr ''DELETE'', ustr ''REMOVE'', ustr ''ADD''}.
      \<exists>pre suf. str_upper (\<lambda>c. [c]) (ustr ''match (n) where n.created > 0 return n'')
                   = pre @ k @ suf)
   \<and> \<not> (\<exists>k \<in> {ustr ''MERGE'', ustr ''CREATE'', ustr ''SET'',
                ustr ''DELETE'', ustr ''REMOVE'', ustr ''ADD''}.
          \<exists>pre suf. str_upper (\<lambda>c. [c]) (ustr ''MATCH (n) RETURN n LIMIT 1'')
                       = pre @ k @ suf)"
proof -
  have w: "any_keyword_in_upper (\<lambda>c. [c])
             (PStr (ustr ''match (n) where n.created > 0 return n'')) write_keywords = Inr True"
    by code_simp
  have r: "any_keyword_in_upper (\<lambda>c. [c])
             (PStr (ustr ''MATCH (n) RETURN n LIMIT 1'')) write_keywords = Inr False"
    by code_simp
  from w r show ?thesis
    using classifier_iff_keyword_substring
            [of "\<lambda>c. [c]" "ustr ''match (n) where n.created > 0 return n''"]
          classifier_iff_keyword_substring
            [of "\<lambda>c. [c]" "ustr ''MATCH (n) RETURN n LIMIT 1''"]
    by simp
qed

section \<open>Properties of the endpoints\<close>

subsection \<open>Auxiliary facts\<close>

text \<open>On a value that is not a \<^verbatim>\<open>str\<close> the classifier leaves with the \<^verbatim>\<open>AttributeError\<close> of \<^verbatim>\<open>upper\<close>.\<close>

lemma any_keyword_non_str:
  "\<forall>s. v \<noteq> PStr s \<Longrightarrow>
   any_keyword_in_upper tbl v write_keywords = Inl (no_attribute (type_name v) (ustr ''upper''))"
  by (cases v) (simp_all add: write_keywords_def py_upper_def)

text \<open>
  A handler calls the driver at most once; when it has called it, the outcome of the
  \<^verbatim>\<open>try\<close> block is decided by what the driver gave back.
\<close>

lemma read_try_calls:
  "c \<in> set (snd (read_try tbl env (Some d) request)) \<Longrightarrow>
   read_try tbl env (Some d) request =
     (case d c of Inl e \<Rightarrow> (Inl e, [c])
      | Inr res \<Rightarrow> (Inr \<lparr>success = True, data = PList (map PDict (er_records res)), error = None\<rparr>, [c]))"
  by (auto simp: read_try_def execute_query_def Let_def
           split: option.splits sum.splits if_splits prod.splits)

lemma write_try_calls:
  "c \<in> set (snd (write_try tbl env (Some d) request)) \<Longrightarrow>
   write_try tbl env (Some d) request =
     (case d c of Inl e \<Rightarrow> (Inl e, [c])
      | Inr res \<Rightarrow>
         (Inr \<lparr>success = True,
               data = PDict
                 [(ustr ''nodesCreated'', PInt (nodes_created (er_summary res))),
                  (ustr ''nodesDeleted'', PInt (nodes_deleted (er_summary res))),
                  (ustr ''relationshipsCreated'', PInt (relationships_created (er_summary res))),
                  (ustr ''relationshipsDeleted'', PInt (relationships_deleted (er_summary res))),
                  (ustr ''propertiesSet'', PInt (properties_set (er_summary res))),
                  (ustr ''labelsAdded'', PInt (labels_added (er_summary res))),
                  (ustr ''labelsRemoved'', PInt (labels_removed (er_summary res)))],
               error = None\<rparr>, [c]))"
  by (auto simp: write_try_def execute_query_def Let_def
           split: option.splits sum.splits if_splits prod.splits)

lemma schema_calls:
  "c \<in> set (snd (get_neo4j_schema env (Some d) request)) \<Longrightarrow>
   c = \<lparr>cq_query = PStr (ustr ''CALL apoc.meta.schema();''),
        cq_parameters = PNone,
        cq_routing = READ,
        cq_database = PStr (getenv env (ustr ''NEO4J_DATABASE'') (ustr ''neo4j'')),
        cq_transformer = RecordData\<rparr>"
  by (auto simp: get_neo4j_schema_def execute_query_def Let_def
           split: option.splits sum.splits if_splits prod.splits)

text \<open>The calls the handlers make at the example inputs.\<close>

lemma read_call_made:
  "snd (read_neo4j_cypher plain_upper Map.empty (Some d)
          (query_request (PStr (ustr ''MATCH (n) RETURN n LIMIT 1'')))) =
     [\<lparr>cq_query = PStr (ustr ''MATCH (n) RETURN n LIMIT 1''), cq_parameters = PDict [],
       cq_routing = READ, cq_database = PStr (ustr ''neo4j''), cq_transformer = RecordData\<rparr>]"
proof -
  have h: "any_keyword_in_upper plain_upper (PStr (ustr ''MATCH (n) RETURN n LIMIT 1'')) write_keywords
             = Inr False"
    by code_simp
  have k: "ustr ''query'' \<noteq> ustr ''params''" "ustr ''query'' \<noteq> ustr ''database''"
          "ustr ''MATCH (n) RETURN n LIMIT 1'' \<noteq> []"
    by (simp_all add: ustr_def)
  show ?thesis
    using h k
    by (auto simp: read_neo4j_cypher_def read_try_def query_request_def dict_get_def
          execute_query_def getenv_def Let_def split: sum.splits)
qed

lemma write_call_made:
  "snd (write_neo4j_cypher plain_upper Map.empty (Some d)
          (query_request (PStr (ustr ''CREATE (n:Test) RETURN n'')))) =
     [\<lparr>cq_query = PStr (ustr ''CREATE (n:Test) RETURN n''), cq_parameters = PDict [],
       cq_routing = WRITE, cq_database = PStr (ustr ''neo4j''), cq_transformer = EagerDefault\<rparr>]"
proof -
  have h: "any_keyword_in_upper plain_upper (PStr (ustr ''CREATE (n:Test) RETURN n'')) write_keywords
             = Inr True"
    by code_simp
  have k: "ustr ''query'' \<noteq> ustr ''params''" "ustr ''query'' \<noteq> ustr ''database''"
          "ustr ''CREATE (n:Test) RETURN n'' \<noteq> []"
    by (simp_all add: ustr_def)
  show ?thesis
    using h k
    by (auto simp: write_neo4j_cypher_def write_try_def query_request_def dict_get_def
          execute_query_def getenv_def Let_def split: sum.splits)
qed

lemma schema_call_made:
  "snd (get_neo4j_schema Map.empty (Some d) request) =
     [\<lparr>cq_query = PStr (ustr ''CALL apoc.meta.schema();''), cq_parameters = PNone,
       cq_routing = READ, cq_database = PStr (ustr ''neo4j''), cq_transformer = RecordData\<rparr>]"
  by (simp add: get_neo4j_schema_def execute_query_def getenv_def Let_def split: sum.splits)

subsection \<open>The classification gates\<close>

text \<open>
  Claim C2. A request to the read endpoint whose \<^verbatim>\<open>query\<close> argument is a non-empty string
  that the classifier marks as a write query is answered with exactly
  \<^verbatim>\<open>{success: false, error: "Only MATCH queries are allowed for read-query"}\<close>, whatever
  else the query holds, and the driver is not called.
\<close>

theorem read_rejects_write_query:
  assumes "arguments request = Some args"
    and "map_of args (ustr ''query'') = Some (PStr q)"
    and "q \<noteq> []"
    and "any_keyword_in_upper tbl (PStr q) write_keywords = Inr True"
  shows "read_neo4j_cypher tbl env neo4j_driver request =
           (\<lparr>success = False, data = PNone,
             error = Some (ustr ''Only MATCH queries are allowed for read-query'')\<rparr>, [])"
  using assms by (simp add: read_neo4j_cypher_def read_try_def dict_get_def failure_def)

theorem read_rejects_write_query_witness:
  "read_neo4j_cypher plain_upper Map.empty (Some answering_driver)
     (query_request (PStr (ustr ''CREATE (n) RETURN n''))) =
   (\<lparr>success = False, data = PNone,
     error = Some (ustr ''Only MATCH queries are allowed for read-query'')\<rparr>, [])"
proof -
  have h: "any_keyword_in_upper plain_upper (PStr (ustr ''CREATE (n) RETURN n'')) write_keywords
             = Inr True"
    by code_simp
  show ?thesis
    by (rule read_rejects_write_query
              [where args = "[(ustr ''query'', PStr (ustr ''CREATE (n) RETURN n''))]", OF _ _ _ h])
       (simp_all add: query_request_def ustr_def)
qed

text \<open>
  Claim C3. A request to the write endpoint whose \<^verbatim>\<open>query\<close> argument is a non-empty string
  in which the classifier finds no write keyword is answered with exactly
  \<^verbatim>\<open>{success: false, error: "Only write queries are allowed for write-query"}\<close>, and the
  driver is not called.
\<close>

theorem write_rejects_read_query:
  assumes "arguments request = Some args"
    and "map_of args (ustr ''query'') = Some (PStr q)"
    and "q \<noteq> []"
    and "any_keyword_in_upper tbl (PStr q) write_keywords = Inr False"
  shows "write_neo4j_cypher tbl env neo4j_driver request =
           (\<lparr>success = False, data = PNone,
             error = Some (ustr ''Only write queries are allowed for write-query'')\<rparr>, [])"
  using assms by (simp add: write_neo4j_cypher_def write_try_def dict_get_def failure_def)

theorem write_rejects_read_query_witness:
  "write_neo4j_cypher plain_upper Map.empty (Some answering_driver)
     (query_request (PStr (ustr ''MATCH (n) RETURN n LIMIT 1''))) =
   (\<lparr>success = False, data = PNone,
     error = Some (ustr ''Only write queries are allowed for write-query'')\<rparr>, [])"
proof -
  have h: "any_keyword_in_upper plain_upper (PStr (ustr ''MATCH (n) RETURN n LIMIT 1'')) write_keywords
             = Inr False"
    by code_simp
  show ?thesis
    by (rule write_rejects_read_query
              [where args = "[(ustr ''query'', PStr (ustr ''MATCH (n) RETURN n LIMIT 1''))]",
               OF _ _ _ h])
       (simp_all add: query_request_def ustr_def)
qed

subsection \<open>Exceptions of the driver\<close>

text \<open>
  Claim C4. When a handler has called the driver and the driver raised \<open>e\<close> on that call,
  the handler returns a response with \<open>success = False\<close>, no data, and an error text that
  carries \<^verbatim>\<open>str(e)\<close> after the prefix \<^verbatim>\<open>Neo4j Error: \<close>; the handler returns normally, so
  nothing reaches the HTTP layer as an exception. On the schema endpoint an exception
  whose text contains \<^verbatim>\<open>Neo.ClientError.Procedure.ProcedureNotFound\<close> gets the message
  about the APOC plugin instead.
\<close>

theorem driver_exception_in_band:
  assumes "d c = Inl e"
  shows "(c \<in> set (snd (read_neo4j_cypher tbl env (Some d) request)) \<longrightarrow>
            fst (read_neo4j_cypher tbl env (Some d) request) =
              \<lparr>success = False, data = PNone,
               error = Some (ustr ''Neo4j Error: '' @ exn_str e)\<rparr>)
       \<and> (c \<in> set (snd (write_neo4j_cypher tbl env (Some d) request)) \<longrightarrow>
            fst (write_neo4j_cypher tbl env (Some d) request) =
              \<lparr>success = False, data = PNone,
               error = Some (ustr ''Neo4j Error: '' @ exn_str e)\<rparr>)
       \<and> (c \<in> set (snd (get_neo4j_schema env (Some d) request)) \<longrightarrow>
            fst (get_neo4j_schema env (Some d) request) =
              \<lparr>success = False, data = PNone,
               error = Some
                 (if \<exists>pre suf. exn_str e =
                       pre @ ustr ''Neo.ClientError.Procedure.ProcedureNotFound'' @ suf
                  then ustr ''Neo4j instance does not have the APOC plugin installed. Please install and enable the APOC plugin.''
                  else ustr ''Neo4j Error: '' @ exn_str e)\<rparr>)"
proof (intro conjI impI)
  assume "c \<in> set (snd (read_neo4j_cypher tbl env (Some d) request))"
  then have "c \<in> set (snd (read_try tbl env (Some d) request))"
    by (simp add: read_neo4j_cypher_def split: prod.splits sum.splits)
  from read_try_calls [OF this] assms
  show "fst (read_neo4j_cypher tbl env (Some d) request) =
          \<lparr>success = False, data = PNone, error = Some (ustr ''Neo4j Error: '' @ exn_str e)\<rparr>"
    by (simp add: read_neo4j_cypher_def failure_def)
next
  assume "c \<in> set (snd (write_neo4j_cypher tbl env (Some d) request))"
  then have "c \<in> set (snd (write_try tbl env (Some d) request))"
    by (simp add: write_neo4j_cypher_def split: prod.splits sum.splits)
  from write_try_calls [OF this] assms
  show "fst (write_neo4j_cypher tbl env (Some d) request) =
          \<lparr>success = False, data = PNone, error = Some (ustr ''Neo4j Error: '' @ exn_str e)\<rparr>"
    by (simp add: write_neo4j_cypher_def failure_def)
next
  assume "c \<in> set (snd (get_neo4j_schema env (Some d) request))"
  from schema_calls [OF this] assms
  show "fst (get_neo4j_schema env (Some d) request) =
          \<lparr>success = False, data = PNone,
           error = Some
             (if \<exists>pre suf. exn_str e =
                   pre @ ustr ''Neo.ClientError.Procedure.ProcedureNotFound'' @ suf
              then ustr ''Neo4j instance does not have the APOC plugin installed. Please install and enable the APOC plugin.''
              else ustr ''Neo4j Error: '' @ exn_str e)\<rparr>"
    by (simp add: get_neo4j_schema_def execute_query_def failure_def py_in_iff)
qed

theorem driver_exception_in_band_witness:
  "fst (read_neo4j_cypher plain_upper Map.empty (Some (raising_driver (ustr ''connection refused'')))
          (query_request (PStr (ustr ''MATCH (n) RETURN n LIMIT 1'')))) =
     \<lparr>success = False, data = PNone,
      error = Some (ustr ''Neo4j Error: '' @ ustr ''connection refused'')\<rparr>
   \<and> fst (write_neo4j_cypher plain_upper Map.empty (Some (raising_driver (ustr ''connection refused'')))
          (query_request (PStr (ustr ''CREATE (n:Test) RETURN n'')))) =
     \<lparr>success = False, data = PNone,
      error = Some (ustr ''Neo4j Error: '' @ ustr ''connection refused'')\<rparr>
   \<and> fst (get_neo4j_schema Map.empty (Some (raising_driver (ustr ''connection refused'')))
          \<lparr>arguments = Some []\<rparr>) =
     \<lparr>success = False, data = PNone,
      error = Some (ustr ''Neo4j Error: '' @ ustr ''connection refused'')\<rparr>
   \<and> fst (get_neo4j_schema Map.empty
          (Some (raising_driver
             (ustr ''{code: Neo.ClientError.Procedure.ProcedureNotFound} {message: There is no procedure with the name apoc.meta.schema registered}'')))
          \<lparr>arguments = Some []\<rparr>) =
     \<lparr>success = False, data = PNone,
      error = Some (ustr ''Neo4j instance does not have the APOC plugin installed. Please install and enable the APOC plugin.'')\<rparr>"
proof -
  have found: "py_in (ustr ''Neo.ClientError.Procedure.ProcedureNotFound'')
      (ustr ''{code: Neo.ClientError.Procedure.ProcedureNotFound} {message: There is no procedure with the name apoc.meta.schema registered}'')"
    by code_simp
  have absent: "\<not> py_in (ustr ''Neo.ClientError.Procedure.ProcedureNotFound'')
      (ustr ''connection refused'')"
    by code_simp
  show ?thesis
    using found absent
      driver_exception_in_band
        [of "raising_driver (ustr ''connection refused'')"
            "\<lparr>cq_query = PStr (ustr ''MATCH (n) RETURN n LIMIT 1''), cq_parameters = PDict [],
              cq_routing = READ, cq_database = PStr (ustr ''neo4j''),
              cq_transformer = RecordData\<rparr>"
            "DriverException (ustr ''connection refused'')"
            plain_upper Map.empty
            "query_request (PStr (ustr ''MATCH (n) RETURN n LIMIT 1''))"]
      driver_exception_in_band
        [of "raising_driver (ustr ''connection refused'')"
            "\<lparr>cq_query = PStr (ustr ''CREATE (n:Test) RETURN n''), cq_parameters = PDict [],
              cq_routing = WRITE, cq_database = PStr (ustr ''neo4j''),
              cq_transformer = EagerDefault\<rparr>"
            "DriverException (ustr ''connection refused'')"
            plain_upper Map.empty
            "query_request (PStr (ustr ''CREATE (n:Test) RETURN n''))"]
      driver_exception_in_band
        [of "raising_driver (ustr ''connection refused'')"
            "\<lparr>cq_query = PStr (ustr ''CALL apoc.meta.schema();''), cq_parameters = PNone,
              cq_routing = READ, cq_database = PStr (ustr ''neo4j''),
              cq_transformer = RecordData\<rparr>"
            "DriverException (ustr ''connection refused'')"
            plain_upper Map.empty "\<lparr>arguments = Some []\<rparr>"]
      driver_exception_in_band
        [of "raising_driver (ustr ''{code: Neo.ClientError.Procedure.ProcedureNotFound} {message: There is no procedure with the name apoc.meta.schema registered}'')"
            "\<lparr>cq_query = PStr (ustr ''CALL apoc.meta.schema();''), cq_parameters = PNone,
              cq_routing = READ, cq_database = PStr (ustr ''neo4j''),
              cq_transformer = RecordData\<rparr>"
            "DriverException (ustr ''{code: Neo.ClientError.Procedure.ProcedureNotFound} {message: There is no procedure with the name apoc.meta.schema registered}'')"
            plain_upper Map.empty "\<lparr>arguments = Some []\<rparr>"]
    by (simp add: raising_driver_def read_call_made write_call_made schema_call_made py_in_iff)
qed

subsection \<open>The response invariant\<close>



subsection \<open>A missing query\<close>

text \<open>
  When \<^verbatim>\<open>arguments\<close> is a mapping in which \<^verbatim>\<open>query\<close> is missing or falsy (the empty
  string, \<^verbatim>\<open>null\<close>, \<^verbatim>\<open>0\<close>, \<^verbatim>\<open>false\<close>, an empty list or mapping), both query endpoints
  answer \<^verbatim>\<open>Query parameter is required\<close> without calling the driver.
\<close>

lemma missing_query_required:
  assumes "arguments request = Some args"
    and "\<not> truthy (dict_get args (ustr ''query'') PNone)"
  shows "read_neo4j_cypher tbl env neo4j_driver request =
           (\<lparr>success = False, data = PNone,
             error = Some (ustr ''Query parameter is required'')\<rparr>, [])"
    and "write_neo4j_cypher tbl env neo4j_driver request =
           (\<lparr>success = False, data = PNone,
             error = Some (ustr ''Query parameter is required'')\<rparr>, [])"
  using assms
  by (simp_all add: read_neo4j_cypher_def read_try_def write_neo4j_cypher_def write_try_def
        failure_def)

text \<open>
  Claim C6. The claim asks for \<^verbatim>\<open>{success: false, error: "Query parameter is required"}\<close>
  for every request whose \<^verbatim>\<open>query\<close> argument is missing. \<^verbatim>\<open>ToolRequest.arguments\<close> is
  \<^verbatim>\<open>Optional\<close>, so the body \<^verbatim>\<open>{"arguments": null}\<close> is a request without a query; there
  \<^verbatim>\<open>args.get("query")\<close> raises on \<^verbatim>\<open>None\<close> before the check \<^verbatim>\<open>if not query\<close> is reached,
  and both endpoints answer with the catch-all's text
  \<^verbatim>\<open>Neo4j Error: 'NoneType' object has no attribute 'get'\<close>, which is not the required
  message. The driver is not called.
\<close>

theorem null_arguments_not_reported_as_missing_query:
  "read_neo4j_cypher tbl env neo4j_driver \<lparr>arguments = None\<rparr> =
     (\<lparr>success = False, data = PNone,
       error = Some (ustr ''Neo4j Error: '' @ apostrophe @ ustr ''NoneType'' @ apostrophe @
                     ustr '' object has no attribute '' @
                     apostrophe @ ustr ''get'' @ apostrophe)\<rparr>, [])
   \<and> write_neo4j_cypher tbl env neo4j_driver \<lparr>arguments = None\<rparr> =
     (\<lparr>success = False, data = PNone,
       error = Some (ustr ''Neo4j Error: '' @ apostrophe @ ustr ''NoneType'' @ apostrophe @
                     ustr '' object has no attribute '' @
                     apostrophe @ ustr ''get'' @ apostrophe)\<rparr>, [])
   \<and> ustr ''Neo4j Error: '' @ apostrophe @ ustr ''NoneType'' @ apostrophe @
       ustr '' object has no attribute '' @ apostrophe @ ustr ''get'' @ apostrophe
       \<noteq> ustr ''Query parameter is required''"
  by (simp add: read_neo4j_cypher_def read_try_def write_neo4j_cypher_def write_try_def
        failure_def no_attribute_def) (simp add: ustr_def)

subsection \<open>Successful calls\<close>

text \<open>
  Claim C7. When the write handler has called the driver and the call returned, the
  response has \<open>success = True\<close>, no error, and as data the mapping with exactly the seven
  keys \<^verbatim>\<open>nodesCreated\<close>, \<^verbatim>\<open>nodesDeleted\<close>, \<^verbatim>\<open>relationshipsCreated\<close>,
  \<^verbatim>\<open>relationshipsDeleted\<close>, \<^verbatim>\<open>propertiesSet\<close>, \<^verbatim>\<open>labelsAdded\<close>, \<^verbatim>\<open>labelsRemoved\<close>, each
  with the summary's counter of that name unchanged. The response is a function of the
  summary alone: the rows and keys of the result do not occur in it.
\<close>

theorem write_success_counters:
  assumes "c \<in> set (snd (write_neo4j_cypher tbl env (Some d) request))"
    and "d c = Inr res"
  shows "fst (write_neo4j_cypher tbl env (Some d) request) =
           \<lparr>success = True,
            data = PDict
              [(ustr ''nodesCreated'', PInt (nodes_created (er_summary res))),
               (ustr ''nodesDeleted'', PInt (nodes_deleted (er_summary res))),
               (ustr ''relationshipsCreated'', PInt (relationships_created (er_summary res))),
               (ustr ''relationshipsDeleted'', PInt (relationships_deleted (er_summary res))),
               (ustr ''propertiesSet'', PInt (properties_set (er_summary res))),
               (ustr ''labelsAdded'', PInt (labels_added (er_summary res))),
               (ustr ''labelsRemoved'', PInt (labels_removed (er_summary res)))],
            error = None\<rparr>"
proof -
  from assms(1) have "c \<in> set (snd (write_try tbl env (Some d) request))"
    by (simp add: write_neo4j_cypher_def split: prod.splits sum.splits)
  from write_try_calls [OF this] assms(2) show ?thesis
    by (simp add: write_neo4j_cypher_def)
qed

theorem write_success_counters_witness:
  "fst (write_neo4j_cypher plain_upper Map.empty (Some answering_driver)
          (query_request (PStr (ustr ''CREATE (n:Test) RETURN n'')))) =
     \<lparr>success = True,
      data = PDict
        [(ustr ''nodesCreated'', PInt 1),
         (ustr ''nodesDeleted'', PInt 0),
         (ustr ''relationshipsCreated'', PInt 0),
         (ustr ''relationshipsDeleted'', PInt 0),
         (ustr ''propertiesSet'', PInt 0),
         (ustr ''labelsAdded'', PInt 1),
         (ustr ''labelsRemoved'', PInt 0)],
      error = None\<rparr>"
  using write_success_counters
          [of "\<lparr>cq_query = PStr (ustr ''CREATE (n:Test) RETURN n''), cq_parameters = PDict [],
                cq_routing = WRITE, cq_database = PStr (ustr ''neo4j''),
                cq_transformer = EagerDefault\<rparr>"
              plain_upper Map.empty answering_driver
              "query_request (PStr (ustr ''CREATE (n:Test) RETURN n''))" sample_result]
  by (simp add: write_call_made answering_driver_def sample_result_def)

text \<open>
  Claim C8. When the schema handler has called the driver and the call returned, the
  response has \<open>success = True\<close> and no error; its data is the \<^verbatim>\<open>value\<close> field of the first
  row when there is a row, and the empty mapping when there is none.
\<close>

theorem schema_success_payload:
  assumes "c \<in> set (snd (get_neo4j_schema env (Some d) request))"
    and "d c = Inr res"
  shows "success (fst (get_neo4j_schema env (Some d) request))
       \<and> error (fst (get_neo4j_schema env (Some d) request)) = None
       \<and> (er_records res = [] \<longrightarrow>
            data (fst (get_neo4j_schema env (Some d) request)) = PDict [])
       \<and> (\<forall>row rest v. er_records res = row # rest \<and> map_of row (ustr ''value'') = Some v \<longrightarrow>
            data (fst (get_neo4j_schema env (Some d) request)) = v)"
  using schema_calls [OF assms(1)] assms(2)
  by (auto simp: get_neo4j_schema_def execute_query_def dict_get_def Let_def)

theorem schema_success_payload_witness:
  "success (fst (get_neo4j_schema Map.empty (Some answering_driver) \<lparr>arguments = None\<rparr>))
   \<and> data (fst (get_neo4j_schema Map.empty (Some answering_driver) \<lparr>arguments = None\<rparr>)) =
       PDict [(ustr ''Test'', PStr (ustr ''node''))]
   \<and> success (fst (get_neo4j_schema Map.empty (Some empty_driver) \<lparr>arguments = None\<rparr>))
   \<and> data (fst (get_neo4j_schema Map.empty (Some empty_driver) \<lparr>arguments = None\<rparr>)) = PDict []"
  using schema_success_payload
          [of "\<lparr>cq_query = PStr (ustr ''CALL apoc.meta.schema();''), cq_parameters = PNone,
                cq_routing = READ, cq_database = PStr (ustr ''neo4j''),
                cq_transformer = RecordData\<rparr>"
              Map.empty answering_driver "\<lparr>arguments = None\<rparr>" sample_result]
        schema_success_payload
          [of "\<lparr>cq_query = PStr (ustr ''CALL apoc.meta.schema();''), cq_parameters = PNone,
                cq_routing = READ, cq_database = PStr (ustr ''neo4j''),
                cq_transformer = RecordData\<rparr>"
              Map.empty empty_driver "\<lparr>arguments = None\<rparr>"
              "sample_result\<lparr>er_records := []\<rparr>"]
  by (simp add: schema_call_made answering_driver_def empty_driver_def sample_result_def)

subsection \<open>The schema endpoint and its request\<close>

text \<open>
  Claim C9. The schema handler never reads its request: with the same environment and
  the same driver, any two requests get the same response and cause the same call.
\<close>

theorem schema_ignores_request:
  "get_neo4j_schema env neo4j_driver request1 = get_neo4j_schema env neo4j_driver request2"
  by (simp add: get_neo4j_schema_def)

theorem schema_ignores_request_witness:
  "get_neo4j_schema Map.empty (Some answering_driver) \<lparr>arguments = None\<rparr> =
   get_neo4j_schema Map.empty (Some answering_driver)
     (query_request (PStr (ustr ''CREATE (n) RETURN n'')))"
  by (rule schema_ignores_request)

subsection \<open>A query that is not a string\<close>

text \<open>
  Claim C10. A request to the read or to the write endpoint whose \<^verbatim>\<open>query\<close> argument is
  truthy and not a string is answered, without a call of the driver and without an
  exception leaving the handler, by a response with \<open>success = False\<close> whose error text
  starts with \<^verbatim>\<open>Neo4j Error: \<close> and goes on with the message of the \<^verbatim>\<open>AttributeError\<close>
  that \<^verbatim>\<open>query.upper()\<close> raised.
\<close>

theorem non_string_query_caught:
  assumes "arguments request = Some args"
    and "map_of args (ustr ''query'') = Some v"
    and "truthy v"
    and "\<forall>s. v \<noteq> PStr s"
  shows "read_neo4j_cypher tbl env neo4j_driver request =
           (\<lparr>success = False, data = PNone,
             error = Some (ustr ''Neo4j Error: '' @ apostrophe @ type_name v @ apostrophe @
                           ustr '' object has no attribute '' @
                           apostrophe @ ustr ''upper'' @ apostrophe)\<rparr>, [])
       \<and> write_neo4j_cypher tbl env neo4j_driver request =
           (\<lparr>success = False, data = PNone,
             error = Some (ustr ''Neo4j Error: '' @ apostrophe @ type_name v @ apostrophe @
                           ustr '' object has no attribute '' @
                           apostrophe @ ustr ''upper'' @ apostrophe)\<rparr>, [])"
  using assms any_keyword_non_str [of v tbl]
  by (simp add: read_neo4j_cypher_def read_try_def write_neo4j_cypher_def write_try_def
        dict_get_def failure_def no_attribute_def)

theorem non_string_query_caught_witness:
  "read_neo4j_cypher plain_upper Map.empty (Some answering_driver) (query_request (PInt 5)) =
     (\<lparr>success = False, data = PNone,
       error = Some (ustr ''Neo4j Error: '' @ apostrophe @ ustr ''int'' @ apostrophe @
                     ustr '' object has no attribute '' @
                     apostrophe @ ustr ''upper'' @ apostrophe)\<rparr>, [])
   \<and> write_neo4j_cypher plain_upper Map.empty (Some answering_driver)
       (query_request (PList [PStr (ustr ''CREATE (n)'')])) =
     (\<lparr>success = False, data = PNone,
       error = Some (ustr ''Neo4j Error: '' @ apostrophe @ ustr ''list'' @ apostrophe @
                     ustr '' object has no attribute '' @
                     apostrophe @ ustr ''upper'' @ apostrophe)\<rparr>, [])"
  using non_string_query_caught
          [of "query_request (PInt 5)" "[(ustr ''query'', PInt 5)]" "PInt 5"
              plain_upper Map.empty "Some answering_driver"]
        non_string_query_caught
          [of "query_request (PList [PStr (ustr ''CREATE (n)'')])"
              "[(ustr ''query'', PList [PStr (ustr ''CREATE (n)'')])]"
              "PList [PStr (ustr ''CREATE (n)'')]"
              plain_upper Map.empty "Some answering_driver"]
  by (simp add: query_request_def)

end
